theory Spec2Isabelle
  imports Complex_Main
begin

section \<open>Go library functions used by the package\<close>

text \<open>
  \<^verbatim>\<open>strings.Join(elems, sep)\<close>: the elements with \<open>sep\<close> between each two
  neighbours, and nothing for the empty slice.
\<close>

fun strings_Join :: "string list \<Rightarrow> string \<Rightarrow> string" where
  "strings_Join [] sep = []"
| "strings_Join [x] sep = x"
| "strings_Join (x # y # ys) sep = x @ sep @ strings_Join (y # ys) sep"

text \<open>
  \<^verbatim>\<open>strconv.FormatUint(n, 10)\<close> and \<^verbatim>\<open>strconv.FormatInt(i, 10)\<close>: the digits
  \<open>0\<close> .. \<open>9\<close> are the characters 48 .. 57, the most significant digit comes first, a
  negative number carries a leading minus sign.
\<close>

definition digit_char :: "nat \<Rightarrow> char" where
  "digit_char d = char_of (48 + d)"

function FormatUint :: "nat \<Rightarrow> string" where
  "FormatUint n =
     (if n < 10 then [digit_char n] else FormatUint (n div 10) @ [digit_char (n mod 10)])"
  by pat_completeness auto
termination
  by (relation "measure id") auto

declare FormatUint.simps [simp del]

definition FormatInt :: "int \<Rightarrow> string" where
  "FormatInt i = (if i < 0 then CHR ''-'' # FormatUint (nat (- i)) else FormatUint (nat i))"

definition FormatBool :: "bool \<Rightarrow> string" where
  "FormatBool b = (if b then ''true'' else ''false'')"

text \<open>
  The kinds \<^verbatim>\<open>reflect.Float32\<close> and \<^verbatim>\<open>reflect.Float64\<close>.
\<close>

datatype float_kind = Float32 | Float64

text \<open>
  The two float renderings the package asks the library for are parameters of the model:
  \<open>FormatFloat_f x\<close> is \<^verbatim>\<open>strconv.FormatFloat(x, 'f', -1, 64)\<close> for the
  \<^verbatim>\<open>float64\<close> \<open>x\<close>, and \<open>Sprint_float k x\<close> is what \<^verbatim>\<open>fmt\<close> prints under the verb
  \<^verbatim>\<open>%v\<close> for the float of kind \<open>k\<close> whose value is \<open>x\<close>.
\<close>

record 'f golib =
  FormatFloat_f :: "'f \<Rightarrow> string"
  Sprint_float :: "float_kind \<Rightarrow> 'f \<Rightarrow> string"

section \<open>Dynamic values\<close>

text \<open>
  A value of type \<^verbatim>\<open>interface{}\<close>, by the \<^verbatim>\<open>reflect.Kind\<close> that
  \<^verbatim>\<open>FormatFilterValue\<close> switches on.
  \<^item> \<open>VString s\<close>: kind String, with the text \<open>s\<close>.
  \<^item> \<open>VBool b\<close>: kind Bool.
  \<^item> \<open>VInt i\<close>: kinds Int, Int8, Int16, Int32, Int64; \<open>i\<close> is what
    \<^verbatim>\<open>v.Int()\<close> returns.
  \<^item> \<open>VUint n\<close>: kinds Uint, Uint8, Uint16, Uint32, Uint64; \<open>n\<close> is what
    \<^verbatim>\<open>v.Uint()\<close> returns.
  \<^item> \<open>VFloat k x\<close>: kind \<open>k\<close>; \<open>x\<close> is what \<^verbatim>\<open>v.Float()\<close> returns, the value
    as a \<^verbatim>\<open>float64\<close> (widening a \<^verbatim>\<open>float32\<close> keeps the number).
  \<^item> \<open>VStrings ss\<close>: a slice or array whose element type has kind String.
  \<^item> \<open>VNamedStrings ps\<close>: a slice or array whose element type has kind String and a
    method that \<^verbatim>\<open>fmt\<close> calls; each element is given by its text and by what
    \<^verbatim>\<open>fmt\<close> prints for it under \<^verbatim>\<open>%v\<close>.
  \<^item> \<open>VSlice vs\<close>: every other slice or array, with the dynamic values of its elements.
  \<^item> \<open>VOther t\<close>: a value of any other kind (nil, map, struct, pointer, uintptr,
    complex, ...), given by the text \<open>t\<close> that \<^verbatim>\<open>fmt\<close> prints for it under
    \<^verbatim>\<open>%v\<close>.
  \<^item> \<open>VPrinted ts tv v\<close>: a value whose type has a method that \<^verbatim>\<open>fmt\<close> calls
    (\<^verbatim>\<open>Format\<close>, \<^verbatim>\<open>Error\<close> or \<^verbatim>\<open>String\<close>), such as
    \<^verbatim>\<open>time.Month\<close> or a named string type with a \<^verbatim>\<open>String\<close> method: \<open>ts\<close> is
    what \<^verbatim>\<open>fmt\<close> prints for it under \<^verbatim>\<open>%s\<close>, \<open>tv\<close> under \<^verbatim>\<open>%v\<close>, and
    \<open>v\<close> is the value as \<^verbatim>\<open>reflect\<close> sees it. The other constructors stand for
    values of types without such a method.
\<close>

datatype 'f gvalue =
    VString string
  | VBool bool
  | VInt int
  | VUint nat
  | VFloat float_kind 'f
  | VStrings "string list"
  | VNamedStrings "(string \<times> string) list"
  | VSlice "'f gvalue list"
  | VOther string
  | VPrinted string string "'f gvalue"

text \<open>
  What \<^verbatim>\<open>fmt.Sprintf("%v", value)\<close> prints; the elements of a slice are printed
  under the same verb, through their methods where they have one.
\<close>

fun Sprint_v :: "'f golib \<Rightarrow> 'f gvalue \<Rightarrow> string" where
  "Sprint_v L (VString s) = s"
| "Sprint_v L (VBool b) = FormatBool b"
| "Sprint_v L (VInt i) = FormatInt i"
| "Sprint_v L (VUint n) = FormatUint n"
| "Sprint_v L (VFloat k x) = Sprint_float L k x"
| "Sprint_v L (VStrings ss) = ''['' @ strings_Join ss '' '' @ '']''"
| "Sprint_v L (VNamedStrings ps) = ''['' @ strings_Join (map snd ps) '' '' @ '']''"
| "Sprint_v L (VSlice vs) = ''['' @ strings_Join (map (Sprint_v L) vs) '' '' @ '']''"
| "Sprint_v L (VOther t) = t"
| "Sprint_v L (VPrinted ts tv v) = tv"

section \<open>utils.go\<close>

text \<open>\<^verbatim>\<open>fmt.Sprintf("\"%s\"", s)\<close> for the text \<open>s\<close>.\<close>

definition quote :: "string \<Rightarrow> string" where
  "quote s = [CHR 0x22] @ s @ [CHR 0x22]"

text \<open>
  Whether \<^verbatim>\<open>reflect.ValueOf(value).Kind()\<close> is String, and whether it is one of the
  kinds that reach the \<^verbatim>\<open>default\<close> case of \<^verbatim>\<open>FormatFilterValue\<close>.
\<close>

fun kind_String :: "'f gvalue \<Rightarrow> bool" where
  "kind_String (VString s) = True"
| "kind_String (VPrinted ts tv v) = kind_String v"
| "kind_String v = False"

fun kind_default :: "'f gvalue \<Rightarrow> bool" where
  "kind_default (VOther t) = True"
| "kind_default (VPrinted ts tv v) = kind_default v"
| "kind_default v = False"

text \<open>
  \<^verbatim>\<open>FormatFilterValue\<close>. The String case and the default case hand the interface
  value itself to \<^verbatim>\<open>fmt\<close>, which prints it through its method when it has one; the
  other cases read the value through \<^verbatim>\<open>reflect\<close>, the elements of a string slice with
  \<^verbatim>\<open>v.Index(i).String()\<close>.
\<close>

fun FormatFilterValue :: "'f golib \<Rightarrow> 'f gvalue \<Rightarrow> string" where
  "FormatFilterValue L (VString s) = quote s"
| "FormatFilterValue L (VBool b) = FormatBool b"
| "FormatFilterValue L (VInt i) = FormatInt i"
| "FormatFilterValue L (VUint n) = FormatUint n"
| "FormatFilterValue L (VFloat k x) = FormatFloat_f L x"
| "FormatFilterValue L (VStrings ss) = ''{'' @ strings_Join (map quote ss) '','' @ ''}''"
| "FormatFilterValue L (VNamedStrings ps) =
     ''{'' @ strings_Join (map (\<lambda>p. quote (fst p)) ps) '','' @ ''}''"
| "FormatFilterValue L (VSlice vs) =
     ''{'' @ strings_Join (map (FormatFilterValue L) vs) '','' @ ''}''"
| "FormatFilterValue L (VOther t) = t"
| "FormatFilterValue L (VPrinted ts tv v) =
     (if kind_String v then quote ts
      else if kind_default v then tv
      else FormatFilterValue L v)"

definition BuildFilterCondition :: "'f golib \<Rightarrow> string \<Rightarrow> string \<Rightarrow> 'f gvalue \<Rightarrow> string" where
  "BuildFilterCondition L column operator v =
     (let formattedValue = FormatFilterValue L v in
      if operator = ''eq'' \<or> operator = ''='' then column @ ''=eq.'' @ formattedValue
      else if operator = ''neq'' \<or> operator = ''!='' \<or> operator = ''<>''
        then column @ ''=neq.'' @ formattedValue
      else if operator = ''gt'' \<or> operator = ''>'' then column @ ''=gt.'' @ formattedValue
      else if operator = ''gte'' \<or> operator = ''>='' then column @ ''=gte.'' @ formattedValue
      else if operator = ''lt'' \<or> operator = ''<'' then column @ ''=lt.'' @ formattedValue
      else if operator = ''lte'' \<or> operator = ''<='' then column @ ''=lte.'' @ formattedValue
      else if operator = ''like'' then column @ ''=like.'' @ formattedValue
      else if operator = ''ilike'' then column @ ''=ilike.'' @ formattedValue
      else if operator = ''in'' then column @ ''=in.'' @ formattedValue
      else if operator = ''is'' then column @ ''=is.'' @ formattedValue
      else column @ ''='' @ operator @ ''.'' @ formattedValue)"

section \<open>client.go\<close>

text \<open>
  The client, by the two fields the query path reads. Its \<^verbatim>\<open>resty\<close> transport is the
  \<open>Do\<close> function of the environment below.
\<close>

record Client =
  baseURL :: string
  apiKey :: string

definition GetBaseURL :: "Client \<Rightarrow> string" where
  "GetBaseURL c = baseURL c"

definition MethodGet :: string where "MethodGet = ''GET''"
definition MethodPost :: string where "MethodPost = ''POST''"
definition MethodPatch :: string where "MethodPatch = ''PATCH''"
definition MethodDelete :: string where "MethodDelete = ''DELETE''"

section \<open>The query builder's state\<close>

text \<open>
  The structs \<^verbatim>\<open>filter\<close>, \<^verbatim>\<open>order\<close>, \<^verbatim>\<open>rangeQuery\<close>, \<^verbatim>\<open>join\<close> and
  \<^verbatim>\<open>QueryBuilder\<close>. Field names that two structs share carry the struct's initial from
  the second struct on (\<open>ocolumn\<close>, \<open>joperator\<close>); \<open>fvalue\<close> is the field
  \<^verbatim>\<open>value\<close> of \<^verbatim>\<open>filter\<close>, \<open>http_method\<close> is the field \<^verbatim>\<open>method\<close> of
  \<^verbatim>\<open>QueryBuilder\<close>, \<open>rstart\<close> and \<open>rend\<close> are \<^verbatim>\<open>start\<close> and
  \<^verbatim>\<open>end\<close> of \<^verbatim>\<open>rangeQuery\<close>. A nil slice is the empty list, the nil map is
  the empty map, the nil \<^verbatim>\<open>*rangeQuery\<close> is \<open>None\<close>.
\<close>

record 'f filter_rec =
  column :: string
  operator :: string
  fvalue :: "'f gvalue"
  isOr :: bool
  isComplex :: bool

record order_rec =
  ocolumn :: string
  direction :: string

record rangeQuery =
  rstart :: int
  rend :: int

record join_rec =
  foreignTable :: string
  localColumn :: string
  joperator :: string
  foreignColumn :: string

record 'f QueryBuilder =
  client :: Client
  tableName :: string
  http_method :: string
  selectFields :: "string list"
  filters :: "'f filter_rec list"
  orderFields :: "order_rec list"
  limitValue :: int
  offsetValue :: int
  rangeValue :: "rangeQuery option"
  headers :: "string \<rightharpoonup> string"
  joins :: "join_rec list"
  rawQuery :: string

text \<open>The nil interface value, as \<^verbatim>\<open>fmt\<close> prints it.\<close>

definition nil_value :: "'f gvalue" where
  "nil_value = VOther ''<nil>''"

definition Table :: "Client \<Rightarrow> string \<Rightarrow> 'f QueryBuilder" where
  "Table c name =
     \<lparr>client = c, tableName = name, http_method = MethodGet, selectFields = [], filters = [],
      orderFields = [], limitValue = 0, offsetValue = 0, rangeValue = None,
      headers = Map.empty, joins = [], rawQuery = []\<rparr>"

subsection \<open>Chained configuration calls\<close>

definition Select :: "'f QueryBuilder \<Rightarrow> string list \<Rightarrow> 'f QueryBuilder" where
  "Select q columns = q\<lparr>selectFields := columns\<rparr>"

definition Where :: "'f QueryBuilder \<Rightarrow> string \<Rightarrow> string \<Rightarrow> 'f gvalue \<Rightarrow> 'f QueryBuilder" where
  "Where q col op v =
     q\<lparr>filters := filters q @
        [\<lparr>column = col, operator = op, fvalue = v, isOr = False, isComplex = False\<rparr>]\<rparr>"

definition OrWhere :: "'f QueryBuilder \<Rightarrow> string \<Rightarrow> string \<Rightarrow> 'f gvalue \<Rightarrow> 'f QueryBuilder" where
  "OrWhere q col op v =
     q\<lparr>filters := filters q @
        [\<lparr>column = col, operator = op, fvalue = v, isOr = True, isComplex = False\<rparr>]\<rparr>"

definition WhereRaw :: "'f QueryBuilder \<Rightarrow> string \<Rightarrow> 'f QueryBuilder" where
  "WhereRaw q condition =
     q\<lparr>filters := filters q @
        [\<lparr>column = condition, operator = [], fvalue = nil_value, isOr = False,
          isComplex = True\<rparr>]\<rparr>"

definition Order :: "'f QueryBuilder \<Rightarrow> string \<Rightarrow> string \<Rightarrow> 'f QueryBuilder" where
  "Order q col dir = q\<lparr>orderFields := orderFields q @ [\<lparr>ocolumn = col, direction = dir\<rparr>]\<rparr>"

definition Limit :: "'f QueryBuilder \<Rightarrow> int \<Rightarrow> 'f QueryBuilder" where
  "Limit q n = q\<lparr>limitValue := n\<rparr>"

definition Offset :: "'f QueryBuilder \<Rightarrow> int \<Rightarrow> 'f QueryBuilder" where
  "Offset q n = q\<lparr>offsetValue := n\<rparr>"

definition Range_rows :: "'f QueryBuilder \<Rightarrow> int \<Rightarrow> int \<Rightarrow> 'f QueryBuilder" where
  "Range_rows q s e = q\<lparr>rangeValue := Some \<lparr>rstart = s, rend = e\<rparr>\<rparr>"

definition Header :: "'f QueryBuilder \<Rightarrow> string \<Rightarrow> string \<Rightarrow> 'f QueryBuilder" where
  "Header q k v = q\<lparr>headers := (headers q)(k \<mapsto> v)\<rparr>"

definition Join :: "'f QueryBuilder \<Rightarrow> string \<Rightarrow> string \<Rightarrow> string \<Rightarrow> string \<Rightarrow> 'f QueryBuilder" where
  "Join q ft lc op fc =
     q\<lparr>joins := joins q @
        [\<lparr>foreignTable = ft, localColumn = lc, joperator = op, foreignColumn = fc\<rparr>]\<rparr>"

definition InnerJoin :: "'f QueryBuilder \<Rightarrow> string \<Rightarrow> string \<Rightarrow> string \<Rightarrow> 'f QueryBuilder" where
  "InnerJoin q ft lc fc = Join q ft lc ''eq'' fc"

definition LeftJoin :: "'f QueryBuilder \<Rightarrow> string \<Rightarrow> string \<Rightarrow> string \<Rightarrow> 'f QueryBuilder" where
  "LeftJoin q ft lc fc = Header (Join q ft lc ''eq'' fc) ''Prefer'' ''missing=null''"

definition Raw :: "'f QueryBuilder \<Rightarrow> string \<Rightarrow> 'f QueryBuilder" where
  "Raw q query = q\<lparr>rawQuery := query\<rparr>"

section \<open>Compiling the query parameters\<close>

text \<open>
  \<^verbatim>\<open>url.Values\<close> is a map from a key to the list of its values: \<^verbatim>\<open>Set\<close> replaces
  the list by one value, \<^verbatim>\<open>Add\<close> appends to it, \<^verbatim>\<open>Get\<close> reads the first value and
  gives the empty string when there is none.
\<close>

type_synonym Values = "string \<rightharpoonup> string list"

definition Values_Set :: "string \<Rightarrow> string \<Rightarrow> Values \<Rightarrow> Values" where
  "Values_Set k v m = m(k \<mapsto> [v])"

definition Values_Add :: "string \<Rightarrow> string \<Rightarrow> Values \<Rightarrow> Values" where
  "Values_Add k v m = m(k \<mapsto> (case m k of None \<Rightarrow> [] | Some vs \<Rightarrow> vs) @ [v])"

definition Values_Get :: "Values \<Rightarrow> string \<Rightarrow> string" where
  "Values_Get m k = (case m k of None \<Rightarrow> [] | Some [] \<Rightarrow> [] | Some (v # _) \<Rightarrow> v)"

text \<open>The loop over \<^verbatim>\<open>q.joins\<close> that collects \<^verbatim>\<open>joinSelects\<close>.\<close>

fun joinSelects :: "join_rec list \<Rightarrow> string list" where
  "joinSelects [] = []"
| "joinSelects (j # js) = (foreignTable j @ ''(*)'') # joinSelects js"

text \<open>The value one filter adds under the key \<^verbatim>\<open>and\<close>.\<close>

definition condition :: "'f golib \<Rightarrow> 'f filter_rec \<Rightarrow> string" where
  "condition L f =
     (if isComplex f then column f
      else if isOr f
        then ''or('' @ column f @ ''.'' @ operator f @ ''.'' @ Sprint_v L (fvalue f) @ '')''
        else column f @ ''.'' @ operator f @ ''.'' @ Sprint_v L (fvalue f))"

fun add_filters :: "'f golib \<Rightarrow> 'f filter_rec list \<Rightarrow> Values \<Rightarrow> Values" where
  "add_filters L [] p = p"
| "add_filters L (f # fs) p = add_filters L fs (Values_Add ''and'' (condition L f) p)"

fun orders :: "order_rec list \<Rightarrow> string list" where
  "orders [] = []"
| "orders (x # xs) = (ocolumn x @ ''.'' @ direction x) # orders xs"

text \<open>
  The value of \<^verbatim>\<open>queryParams\<close> when \<^verbatim>\<open>execute\<close> hands it to the request, in the
  order of the source: select, joins, filters, order, limit, offset.
\<close>

definition queryParams :: "'f golib \<Rightarrow> 'f QueryBuilder \<Rightarrow> Values" where
  "queryParams L q =
     (let p = Map.empty;
          p = (if length (selectFields q) > 0
               then Values_Set ''select'' (strings_Join (selectFields q) '','') p else p);
          p = (if length (joins q) > 0
               then (if length (selectFields q) > 0
                     then Values_Set ''select''
                            (Values_Get p ''select'' @ '','' @
                             strings_Join (joinSelects (joins q)) '','') p
                     else Values_Set ''select''
                            (''*,'' @ strings_Join (joinSelects (joins q)) '','') p)
               else p);
          p = add_filters L (filters q) p;
          p = (if length (orderFields q) > 0
               then Values_Set ''order'' (strings_Join (orders (orderFields q)) '','') p else p);
          p = (if limitValue q > 0 then Values_Set ''limit'' (FormatInt (limitValue q)) p else p);
          p = (if offsetValue q > 0 then Values_Set ''offset'' (FormatInt (offsetValue q)) p
               else p)
      in p)"

section \<open>Requests, responses and the caller's data\<close>

text \<open>The local struct \<^verbatim>\<open>sqlRequest\<close> of \<^verbatim>\<open>execute\<close>, marshalled as \<^verbatim>\<open>{"query": ...}\<close>.\<close>

record sqlRequest =
  Query :: string

text \<open>
  What a pointer handed to a terminal call points to: the \<^verbatim>\<open>json.RawMessage\<close> that
  \<^verbatim>\<open>Count\<close> declares, or a result container of the caller with content of type \<open>'d\<close>.
\<close>

datatype 'd container = RawMessage string | Dest 'd

text \<open>
  The argument \<^verbatim>\<open>data interface{}\<close>:
  \<^item> \<open>DNil\<close>: the nil interface;
  \<^item> \<open>DPtr c\<close>: a non-nil pointer to a container that holds \<open>c\<close> now;
  \<^item> \<open>DVal v\<close>: a value that \<^verbatim>\<open>json.Unmarshal\<close> cannot store into (not a pointer, or
    a nil pointer);
  \<^item> \<open>DSql r\<close>: the struct \<open>r\<close> of type \<^verbatim>\<open>sqlRequest\<close>, held by value.
\<close>

datatype 'd data = DNil | DPtr "'d container" | DVal 'd | DSql sqlRequest

text \<open>
  \<^verbatim>\<open>textproto.CanonicalMIMEHeaderKey\<close>, which \<^verbatim>\<open>http.Header.Set\<close> applies to a
  header name: a name with a byte that is not a token character is left as it is; in any
  other name the first letter and every letter after a hyphen become upper case and all
  other letters lower case.
\<close>

definition is_lower :: "char \<Rightarrow> bool" where
  "is_lower c = (97 \<le> (of_char c :: nat) \<and> (of_char c :: nat) \<le> 122)"

definition is_upper :: "char \<Rightarrow> bool" where
  "is_upper c = (65 \<le> (of_char c :: nat) \<and> (of_char c :: nat) \<le> 90)"

definition to_upper :: "char \<Rightarrow> char" where
  "to_upper c = char_of ((of_char c :: nat) - 32)"

definition to_lower :: "char \<Rightarrow> char" where
  "to_lower c = char_of ((of_char c :: nat) + 32)"

definition validHeaderFieldByte :: "char \<Rightarrow> bool" where
  "validHeaderFieldByte c =
     (is_lower c \<or> is_upper c \<or> (48 \<le> (of_char c :: nat) \<and> (of_char c :: nat) \<le> 57)
      \<or> c \<in> set [CHR ''!'', CHR ''#'', CHR ''$'', CHR ''%'', CHR ''&'', CHR 0x27, CHR ''*'',
                   CHR ''+'', CHR ''-'', CHR ''.'', CHR ''^'', CHR ''_'', CHR 0x60, CHR ''|'',
                   CHR ''~''])"

fun canonical_case :: "bool \<Rightarrow> string \<Rightarrow> string" where
  "canonical_case upper [] = []"
| "canonical_case upper (c # cs) =
     (let c' = (if upper \<and> is_lower c then to_upper c
                else if \<not> upper \<and> is_upper c then to_lower c
                else c)
      in c' # canonical_case (c' = CHR ''-'') cs)"

definition CanonicalMIMEHeaderKey :: "string \<Rightarrow> string" where
  "CanonicalMIMEHeaderKey s =
     (if list_all validHeaderFieldByte s then canonical_case True s else s)"

text \<open>
  A \<^verbatim>\<open>resty\<close> request: the method and URL of the call that sends it, the headers set
  with \<^verbatim>\<open>SetHeader\<close>, the query parameters, and the argument of \<^verbatim>\<open>SetBody\<close>
  (\<open>None\<close> when \<^verbatim>\<open>SetBody\<close> was not called).
\<close>

record 'd request =
  req_Method :: string
  req_URL :: string
  req_Header :: "string \<rightharpoonup> string"
  req_QueryParam :: Values
  req_Body :: "'d data option"

text \<open>
  A \<^verbatim>\<open>resty\<close> response: \<open>resp_String\<close> is the text of \<^verbatim>\<open>resp.String()\<close>,
  \<open>resp_Body\<close> the bytes of \<^verbatim>\<open>resp.Body()\<close>.
\<close>

record response =
  StatusCode :: nat
  resp_Header :: "string \<rightharpoonup> string"
  resp_Body :: string
  resp_String :: string

definition IsError :: "response \<Rightarrow> bool" where
  "IsError r = (StatusCode r > 399)"

datatype error =
    Errorf string
  | TransportError string
  | UnmarshalError string
  | InvalidUnmarshalError

text \<open>
  The environment of a call, beside the float renderings: \<open>range_keys hs\<close> is the order
  in which the \<^verbatim>\<open>range\<close> loop of this call visits the keys of the header map \<open>hs\<close>
  (Go fixes no order); \<open>Do\<close> is the transport (a transport error, or the server's response
  to the request); \<open>checkValid\<close> is the syntax check \<^verbatim>\<open>json.Unmarshal\<close> runs on the
  bytes first (an error message if they are not JSON); \<open>decode\<close> is what
  \<^verbatim>\<open>json.Unmarshal\<close> then does to a container it can store into (an error message if
  it fails, and the content it leaves behind).
\<close>

record ('f, 'd) env = "'f golib" +
  range_keys :: "(string \<rightharpoonup> string) \<Rightarrow> string list"
  Do :: "'d request \<Rightarrow> string + response"
  checkValid :: "string \<Rightarrow> string option"
  decode :: "string \<Rightarrow> 'd container \<Rightarrow> string option \<times> 'd container"


text \<open>
  \<^verbatim>\<open>json.Unmarshal(b, d)\<close>: bytes that are not JSON give a syntax error; a target that
  is not a non-nil pointer gives \<^verbatim>\<open>InvalidUnmarshalError\<close>; otherwise the bytes are
  decoded into what the pointer points to.
\<close>

definition json_Unmarshal :: "('f, 'd) env \<Rightarrow> string \<Rightarrow> 'd data \<Rightarrow> error option \<times> 'd data" where
  "json_Unmarshal E b d =
     (case checkValid E b of
        Some m \<Rightarrow> (Some (UnmarshalError m), d)
      | None \<Rightarrow>
          (case d of
             DPtr c \<Rightarrow>
               (case decode E b c of
                  (None, c') \<Rightarrow> (None, DPtr c')
                | (Some m, c') \<Rightarrow> (Some (UnmarshalError m), DPtr c'))
           | _ \<Rightarrow> (Some InvalidUnmarshalError, d)))"

section \<open>execute and the terminal operations\<close>

text \<open>
  What a terminal call leaves behind: the error it returns, the builder after the call,
  the caller's argument after the call, and the requests that went out.
\<close>

record ('f, 'd) outcome =
  err :: "error option"
  builder :: "'f QueryBuilder"
  arg :: "'d data"
  sent :: "'d request list"

text \<open>
  The part of \<^verbatim>\<open>execute\<close> after the request is sent: \<open>data\<close> is the local variable
  \<^verbatim>\<open>data\<close>, and the result is the returned error with \<open>data\<close> after the call.
\<close>

definition receive ::
  "('f, 'd) env \<Rightarrow> 'f QueryBuilder \<Rightarrow> 'd data \<Rightarrow> string + response \<Rightarrow> error option \<times> 'd data" where
  "receive E q d r =
     (case r of
        Inl e \<Rightarrow> (Some (TransportError e), d)
      | Inr resp \<Rightarrow>
          if IsError resp then (Some (Errorf (''API error: '' @ resp_String resp)), d)
          else if http_method q = MethodGet \<and> d \<noteq> DNil then json_Unmarshal E (resp_Body resp) d
          else if http_method q = MethodPost \<and> d \<noteq> DNil then json_Unmarshal E (resp_Body resp) d
          else (None, d))"

text \<open>
  The loop \<^verbatim>\<open>for k, v := range q.headers { req.SetHeader(k, v) }\<close>, visiting the
  keys in the order \<open>ks\<close>: a later key with the same canonical name overwrites an earlier
  one.
\<close>

fun set_headers ::
  "(string \<rightharpoonup> string) \<Rightarrow> string list \<Rightarrow> (string \<rightharpoonup> string) \<Rightarrow> (string \<rightharpoonup> string)" where
  "set_headers hs [] h = h"
| "set_headers hs (k # ks) h =
     set_headers hs ks
       (case hs k of None \<Rightarrow> h | Some v \<Rightarrow> h(CanonicalMIMEHeaderKey k \<mapsto> v))"

text \<open>
  The request as \<^verbatim>\<open>execute\<close> has built it when it reaches the \<^verbatim>\<open>switch\<close>: the
  custom headers, set in the order \<open>ks\<close>, and outside raw mode the \<^verbatim>\<open>Range\<close> header
  and the query parameters.
\<close>

definition build_request :: "'f golib \<Rightarrow> string list \<Rightarrow> 'f QueryBuilder \<Rightarrow> 'd request" where
  "build_request L ks q =
     (let req = \<lparr>req_Method = [], req_URL = [], req_Header = Map.empty,
                 req_QueryParam = Map.empty, req_Body = None\<rparr>;
          req = req\<lparr>req_Header := set_headers (headers q) ks (req_Header req)\<rparr>
      in if rawQuery q = [] then
           (let req = (case rangeValue q of
                         None \<Rightarrow> req
                       | Some r \<Rightarrow>
                           req\<lparr>req_Header := (req_Header req)
                             (CanonicalMIMEHeaderKey ''Range'' \<mapsto>
                                FormatInt (rstart r) @ ''-'' @ FormatInt (rend r))\<rparr>)
            in req\<lparr>req_QueryParam := queryParams L q\<rparr>)
         else req)"

text \<open>
  \<^verbatim>\<open>execute\<close>. In raw mode the local variable \<^verbatim>\<open>data\<close> is rebound to the
  \<^verbatim>\<open>sqlRequest\<close> struct, so what happens to it afterwards does not reach the caller's
  argument; otherwise \<^verbatim>\<open>data\<close> is the caller's argument.
\<close>

definition execute :: "('f, 'd) env \<Rightarrow> 'f QueryBuilder \<Rightarrow> 'd data \<Rightarrow> ('f, 'd) outcome" where
  "execute E q0 a =
     (let raw = (rawQuery q0 \<noteq> []);
          endpoint = (if raw then GetBaseURL (client q0) @ ''/rest/v1/rpc/execute_sql''
                      else GetBaseURL (client q0) @ ''/rest/v1/'' @ tableName q0);
          q = (if raw then q0\<lparr>http_method := MethodPost\<rparr> else q0);
          d = (if raw then DSql \<lparr>Query = rawQuery q0\<rparr> else a);
          req = build_request (golib.truncate E) (range_keys E (headers q)) q;
          back = (\<lambda>(e, d'). \<lparr>err = e, builder = q, arg = (if raw then a else d'), sent = []\<rparr>)
      in if http_method q = MethodGet then
           (let r = req\<lparr>req_Method := MethodGet, req_URL := endpoint\<rparr>
            in (back (receive E q d (Do E r)))\<lparr>sent := [r]\<rparr>)
         else if http_method q = MethodPost then
           (let r = req\<lparr>req_Body := Some d, req_Method := MethodPost, req_URL := endpoint\<rparr>
            in (back (receive E q d (Do E r)))\<lparr>sent := [r]\<rparr>)
         else if http_method q = MethodPatch then
           (let r = req\<lparr>req_Body := Some d, req_Method := MethodPatch, req_URL := endpoint\<rparr>
            in (back (receive E q d (Do E r)))\<lparr>sent := [r]\<rparr>)
         else if http_method q = MethodDelete then
           (let r = req\<lparr>req_Method := MethodDelete, req_URL := endpoint\<rparr>
            in (back (receive E q d (Do E r)))\<lparr>sent := [r]\<rparr>)
         else \<lparr>err = Some (Errorf (''unsupported HTTP method: '' @ http_method q)), builder = q,
               arg = a, sent = []\<rparr>)"

definition Get :: "('f, 'd) env \<Rightarrow> 'f QueryBuilder \<Rightarrow> 'd data \<Rightarrow> ('f, 'd) outcome" where
  "Get E q result = execute E q result"

definition First :: "('f, 'd) env \<Rightarrow> 'f QueryBuilder \<Rightarrow> 'd data \<Rightarrow> ('f, 'd) outcome" where
  "First E q result = execute E (Limit q 1) result"

definition Insert :: "('f, 'd) env \<Rightarrow> 'f QueryBuilder \<Rightarrow> 'd data \<Rightarrow> ('f, 'd) outcome" where
  "Insert E q d = execute E (q\<lparr>http_method := MethodPost\<rparr>) d"

definition Update :: "('f, 'd) env \<Rightarrow> 'f QueryBuilder \<Rightarrow> 'd data \<Rightarrow> ('f, 'd) outcome" where
  "Update E q d = execute E (q\<lparr>http_method := MethodPatch\<rparr>) d"

definition Delete :: "('f, 'd) env \<Rightarrow> 'f QueryBuilder \<Rightarrow> ('f, 'd) outcome" where
  "Delete E q = execute E (q\<lparr>http_method := MethodDelete\<rparr>) DNil"


section \<open>transaction.go\<close>

record Transaction =
  tx_client :: Client

definition Begin :: "Client \<Rightarrow> Transaction" where
  "Begin c = \<lparr>tx_client = c\<rparr>"

definition Transaction_Table :: "Transaction \<Rightarrow> string \<Rightarrow> 'f QueryBuilder" where
  "Transaction_Table t name = Header (Table (tx_client t) name) ''Prefer'' ''tx=commit''"

definition Commit :: "Transaction \<Rightarrow> error option" where
  "Commit t = None"

definition Rollback :: "Transaction \<Rightarrow> error option" where
  "Rollback t = Some (Errorf ''rollback not supported in the current Supabase REST API'')"

section \<open>Notions used to state the properties\<close>

text \<open>
  Reading decimal text back: the value of a digit character, the test that a character is
  a digit, and the number a string of digits denotes. \<open>nest k v\<close> wraps \<open>v\<close> in \<open>k\<close>
  one-element slices.
\<close>

definition digit_value :: "char \<Rightarrow> nat" where
  "digit_value ch = of_char ch - 48"

definition is_digit :: "char \<Rightarrow> bool" where
  "is_digit ch = (48 \<le> (of_char ch :: nat) \<and> (of_char ch :: nat) \<le> 57)"

definition decimal_value :: "string \<Rightarrow> nat" where
  "decimal_value s = foldl (\<lambda>a ch. 10 * a + digit_value ch) 0 s"

fun nest :: "nat \<Rightarrow> 'f gvalue \<Rightarrow> 'f gvalue" where
  "nest 0 v = v"
| "nest (Suc n) v = VSlice [nest n v]"

text \<open>
  Floating-point numbers and decimal texts. A finite binary floating-point number with a
  significand of \<open>p\<close> bits is an integer below \<open>2 ^ p\<close> in absolute value, times or divided
  by a power of two (the exponent range is left open); \<^verbatim>\<open>float32\<close> has 24 bits and
  \<^verbatim>\<open>float64\<close> has 53. \<open>nearest p v x\<close>: \<open>x\<close> is such a number and none is closer to
  \<open>v\<close>; reading a text of value \<open>v\<close> with \<^verbatim>\<open>strconv.ParseFloat\<close> at that width
  gives such a number (of two equally near ones, the one with the even significand). A
  decimal text, as \<^verbatim>\<open>strconv.FormatFloat\<close> writes it in format
  \<^verbatim>\<open>'f'\<close>, is an optional minus sign, one or more digits and, optionally, a point
  and one or more digits; \<open>decimal_rat\<close> is the number it denotes. A text round-trips to
  \<open>x\<close> when reading it gives \<open>x\<close>, and is a shortest such text when no text that
  round-trips has fewer characters: the contract of \<^verbatim>\<open>FormatFloat\<close> with precision
  \<^verbatim>\<open>-1\<close> at the width it is given.
\<close>

definition representable :: "nat \<Rightarrow> rat \<Rightarrow> bool" where
  "representable p x =
     (\<exists>(m :: int) (k :: nat). \<bar>m\<bar> < 2 ^ p \<and> (x = of_int m * 2 ^ k \<or> x = of_int m / 2 ^ k))"

definition precision :: "float_kind \<Rightarrow> nat" where
  "precision k = (case k of Float32 \<Rightarrow> 24 | Float64 \<Rightarrow> 53)"

definition nearest :: "nat \<Rightarrow> rat \<Rightarrow> rat \<Rightarrow> bool" where
  "nearest p v x = (representable p x \<and> (\<forall>y. representable p y \<longrightarrow> \<bar>v - x\<bar> \<le> \<bar>v - y\<bar>))"

definition unsigned_part :: "string \<Rightarrow> string" where
  "unsigned_part t = (case t of [] \<Rightarrow> [] | c # cs \<Rightarrow> if c = CHR ''-'' then cs else t)"

definition int_part :: "string \<Rightarrow> string" where
  "int_part t = takeWhile (\<lambda>c. c \<noteq> CHR ''.'') (unsigned_part t)"

definition point_part :: "string \<Rightarrow> string" where
  "point_part t = dropWhile (\<lambda>c. c \<noteq> CHR ''.'') (unsigned_part t)"

definition frac_part :: "string \<Rightarrow> string" where
  "frac_part t = drop 1 (point_part t)"

definition decimal_text :: "string \<Rightarrow> bool" where
  "decimal_text t =
     (int_part t \<noteq> [] \<and> list_all is_digit (int_part t) \<and> list_all is_digit (frac_part t)
      \<and> (point_part t = [] \<or> frac_part t \<noteq> []))"

definition decimal_rat :: "string \<Rightarrow> rat" where
  "decimal_rat t =
     (if unsigned_part t = t then 1 else - 1) *
     (of_nat (decimal_value (int_part t)) +
      of_nat (decimal_value (frac_part t)) / 10 ^ length (frac_part t))"

definition roundtrips :: "nat \<Rightarrow> string \<Rightarrow> rat \<Rightarrow> bool" where
  "roundtrips p t x = (decimal_text t \<and> nearest p (decimal_rat t) x)"

definition shortest_roundtrip :: "nat \<Rightarrow> rat \<Rightarrow> string \<Rightarrow> bool" where
  "shortest_roundtrip p x t =
     (roundtrips p t x \<and> (\<forall>u. roundtrips p u x \<longrightarrow> length t \<le> length u))"

section \<open>Example inputs\<close>

text \<open>
  A library whose float renderings are constant, a client, a server that answers every
  request with status 200 and a body, and a transport that always fails. The decoder of
  both environments stores the response body in the container. Both environments visit
  the header names \<open>Prefer\<close>, \<open>prefer\<close> and \<open>X-Trace\<close>, the first with \<open>Prefer\<close> before
  \<open>prefer\<close>, the second with \<open>prefer\<close> before \<open>Prefer\<close>.
\<close>

definition lib0 :: "unit golib" where
  "lib0 = \<lparr>FormatFloat_f = (\<lambda>x. ''0''), Sprint_float = (\<lambda>k x. ''0'')\<rparr>"

definition client0 :: Client where
  "client0 = \<lparr>baseURL = ''https://example.supabase.co'', apiKey = ''test-api-key''\<rparr>"

definition env_ok :: "(unit, string) env" where
  "env_ok =
     \<lparr>FormatFloat_f = (\<lambda>x. ''0''), Sprint_float = (\<lambda>k x. ''0''),
      range_keys = (\<lambda>hs. filter (\<lambda>k. hs k \<noteq> None) [''Prefer'', ''prefer'', ''X-Trace'']),
      Do = (\<lambda>r. Inr \<lparr>StatusCode = 200, resp_Header = [''Content-Range'' \<mapsto> ''0-0/42''],
                       resp_Body = ''[1]'', resp_String = ''[1]''\<rparr>),
      checkValid = (\<lambda>b. None),
      decode = (\<lambda>b c. (None, case c of RawMessage x \<Rightarrow> RawMessage b | Dest x \<Rightarrow> Dest b))\<rparr>"


text \<open>
  The \<^verbatim>\<open>float32\<close> nearest to one tenth, \<open>13421773 / 2 ^ 27\<close>, which is what
  \<^verbatim>\<open>float32(0.1)\<close> holds, and a library that gives for it the text
  \<^verbatim>\<open>strconv.FormatFloat\<close> returns at 64 bits.
\<close>

definition float32_tenth :: rat where
  "float32_tenth = 13421773 / 2 ^ 27"

definition lib_float :: "rat golib" where
  "lib_float =
     \<lparr>FormatFloat_f = (\<lambda>x. ''0.10000000149011612''), Sprint_float = (\<lambda>k x. ''0.1'')\<rparr>"

section \<open>Properties of the Go library functions\<close>

lemma digit_value_digit_char: "d < 10 \<Longrightarrow> digit_value (digit_char d) = d"
  by (simp add: digit_value_def digit_char_def)

lemma is_digit_digit_char: "d < 10 \<Longrightarrow> is_digit (digit_char d)"
  by (simp add: is_digit_def digit_char_def)

lemma decimal_value_snoc: "decimal_value (s @ [ch]) = 10 * decimal_value s + digit_value ch"
  by (simp add: decimal_value_def)

lemma FormatUint_digits: "list_all is_digit (FormatUint n)"
proof (induction n rule: FormatUint.induct)
  case (1 n)
  show ?case
  proof (cases "n < 10")
    case True
    then show ?thesis by (simp add: FormatUint.simps [of n] is_digit_digit_char)
  next
    case False
    with 1 show ?thesis by (simp add: FormatUint.simps [of n] is_digit_digit_char)
  qed
qed

lemma FormatUint_value: "decimal_value (FormatUint n) = n"
proof (induction n rule: FormatUint.induct)
  case (1 n)
  show ?case
  proof (cases "n < 10")
    case True
    then show ?thesis
      by (simp add: FormatUint.simps [of n] decimal_value_def digit_value_digit_char)
  next
    case False
    with 1 show ?thesis
      by (simp add: FormatUint.simps [of n] decimal_value_snoc digit_value_digit_char)
  qed
qed

lemma length_strings_Join:
  "length (strings_Join xs sep) = sum_list (map length xs) + (length xs - 1) * length sep"
  by (induction xs sep rule: strings_Join.induct) simp_all

lemma FormatFilterValue_nest:
  "FormatFilterValue L (nest n v) =
     replicate n (CHR ''{'') @ FormatFilterValue L v @ replicate n (CHR ''}'')"
proof (induction n)
  case 0
  show ?case by simp
next
  case (Suc n)
  have "replicate n (CHR ''}'') @ ''}'' = replicate (Suc n) (CHR ''}'')"
    by (simp add: replicate_append_same)
  with Suc show ?case by simp
qed



lemma canonical_Range: "CanonicalMIMEHeaderKey ''Range'' = ''Range''"
  by code_simp


section \<open>The value formatter and the filter compiler\<close>

text \<open>
  The forms the value formatter gives to values of types without a method that
  \<^verbatim>\<open>fmt\<close> calls: a string between double quotes, \<open>true\<close> or \<open>false\<close>, an integer in
  base 10 (digits only, a minus sign before a negative number, and the digits read back as
  the number), a string collection as its quoted elements joined by commas inside braces,
  \<open>{}\<close> for an empty collection, any other collection as its recursively formatted
  elements joined by commas inside braces, with one comma less than there are elements,
  and \<open>k\<close> pairs of braces around a value nested \<open>k\<close> slices deep. A value with such a
  method is formatted by its kind all the same, except for the kind String, where the
  text of the method is put between the quotes.
\<close>

lemma FormatFilterValue_forms:
  "FormatFilterValue L (VString s) = [CHR 0x22] @ s @ [CHR 0x22]
   \<and> quote s = [CHR 0x22] @ s @ [CHR 0x22]
   \<and> FormatFilterValue L (VBool True) = ''true''
   \<and> FormatFilterValue L (VBool False) = ''false''
   \<and> FormatFilterValue L (VInt i) =
       (if i < 0 then ''-'' @ FormatUint (nat (- i)) else FormatUint (nat i))
   \<and> FormatFilterValue L (VUint n) = FormatUint n
   \<and> list_all is_digit (FormatUint n) \<and> decimal_value (FormatUint n) = n
   \<and> FormatFilterValue L (VStrings [''a'', ''b'']) =
       [CHR ''{'', CHR 0x22, CHR ''a'', CHR 0x22, CHR '','', CHR 0x22, CHR ''b'', CHR 0x22,
        CHR ''}'']
   \<and> FormatFilterValue L (VStrings ss) =
       ''{'' @ strings_Join (map quote ss) '','' @ ''}''
   \<and> FormatFilterValue L (VNamedStrings ps) =
       ''{'' @ strings_Join (map quote (map fst ps)) '','' @ ''}''
   \<and> FormatFilterValue L (VStrings []) = ''{}''
   \<and> FormatFilterValue L (VSlice []) = ''{}''
   \<and> FormatFilterValue L (VSlice vs) =
       ''{'' @ strings_Join (map (FormatFilterValue L) vs) '','' @ ''}''
   \<and> length (FormatFilterValue L (VSlice vs)) =
       2 + sum_list (map (\<lambda>v. length (FormatFilterValue L v)) vs) + (length vs - 1)
   \<and> length (FormatFilterValue L (VStrings ss)) =
       2 + sum_list (map (\<lambda>s. length s + 2) ss) + (length ss - 1)
   \<and> FormatFilterValue L (nest k v) =
       replicate k (CHR ''{'') @ FormatFilterValue L v @ replicate k (CHR ''}'')
   \<and> FormatFilterValue L (VPrinted ts tv (VInt i)) = FormatFilterValue L (VInt i)
   \<and> FormatFilterValue L (VPrinted ts tv (VUint n)) = FormatFilterValue L (VUint n)
   \<and> FormatFilterValue L (VPrinted ts tv (VBool b)) = FormatFilterValue L (VBool b)
   \<and> FormatFilterValue L (VPrinted ts tv (VSlice vs)) = FormatFilterValue L (VSlice vs)
   \<and> FormatFilterValue L (VPrinted ts tv (VString s)) = [CHR 0x22] @ ts @ [CHR 0x22]"
  by (simp add: FormatUint_digits FormatUint_value FormatFilterValue_nest length_strings_Join
      quote_def FormatBool_def FormatInt_def comp_def)

text \<open>
  C4. The value formatter is to return, for each string \<open>s\<close>, the text \<open>s\<close> between double
  quotes (and the documented forms for booleans, integers and collections). For a string
  of a named type with a \<^verbatim>\<open>String\<close> method, \<^verbatim>\<open>Colour("red")\<close> printing as
  \<open>COLOUR(red)\<close>, the String case of \<^verbatim>\<open>FormatFilterValue\<close> returns the text of the
  method between the quotes, not \<open>red\<close>; the case for a slice of that type puts the
  string itself, \<open>red\<close>, between the quotes.
\<close>

theorem FormatFilterValue_named_string:
  "FormatFilterValue lib0 (VPrinted ''COLOUR(red)'' ''COLOUR(red)'' (VString ''red'')) =
     [CHR 0x22] @ ''COLOUR(red)'' @ [CHR 0x22]
   \<and> FormatFilterValue lib0 (VPrinted ''COLOUR(red)'' ''COLOUR(red)'' (VString ''red'')) \<noteq>
     [CHR 0x22] @ ''red'' @ [CHR 0x22]
   \<and> FormatFilterValue lib0 (VString ''red'') = [CHR 0x22] @ ''red'' @ [CHR 0x22]
   \<and> FormatFilterValue lib0 (VNamedStrings [(''red'', ''COLOUR(red)'')]) =
     ''{'' @ [CHR 0x22] @ ''red'' @ [CHR 0x22] @ ''}''"
  by (simp add: quote_def)

section \<open>Floating-point values\<close>

text \<open>
  The floating-point numbers of one width that are at least one sixteenth lie on a grid;
  a number on the grid that is within half a grid step of \<open>v\<close> is nearest to \<open>v\<close>, and a
  number with a closer neighbour is not; a short decimal text denotes a number with few
  decimals.
\<close>

lemma representable_grid:
  assumes r: "representable p y" and lo: "1 / 16 \<le> y"
  shows "\<exists>n :: int. y = of_int n / 2 ^ (p + 3)"
proof -
  from r obtain m :: int and k :: nat
    where m: "\<bar>m\<bar> < 2 ^ p" and y: "y = of_int m * 2 ^ k \<or> y = of_int m / 2 ^ k"
    by (auto simp add: representable_def)
  from y show ?thesis
  proof
    assume "y = of_int m * 2 ^ k"
    then have "y = of_int (m * 2 ^ k * 2 ^ (p + 3)) / 2 ^ (p + 3)"
      by simp
    then show ?thesis by blast
  next
    assume yd: "y = of_int m / 2 ^ k"
    show ?thesis
    proof (cases "k \<le> p + 3")
      case True
      then have "(2 :: rat) ^ (p + 3) = 2 ^ k * 2 ^ (p + 3 - k)"
        by (simp add: power_add [symmetric])
      then have "y = of_int (m * 2 ^ (p + 3 - k)) / 2 ^ (p + 3)"
        using yd by simp
      then show ?thesis by blast
    next
      case False
      then have "p + 4 \<le> k" by simp
      then have "(2 :: rat) ^ (p + 4) \<le> 2 ^ k"
        by (simp add: power_increasing)
      moreover have "(of_int m :: rat) < 2 ^ p"
      proof -
        from m have "m < 2 ^ p" by simp
        then have "(of_int m :: rat) < of_int (2 ^ p)" by (simp only: of_int_less_iff)
        then show ?thesis by simp
      qed
      moreover have "y * 2 ^ k = of_int m"
        using yd by simp
      moreover have "(1 / 16) * (2 :: rat) ^ k \<le> y * 2 ^ k"
        using lo by (rule mult_right_mono) simp
      moreover have "(2 :: rat) ^ (p + 4) = 16 * 2 ^ p"
        by (simp add: power_add)
      ultimately have "y < 1 / 16"
        by simp
      with lo show ?thesis by simp
    qed
  qed
qed

lemma grid_gap:
  assumes ne: "n \<noteq> (n0 :: int)"
  shows "1 / 2 ^ q \<le> \<bar>(of_int n :: rat) / 2 ^ q - of_int n0 / 2 ^ q\<bar>"
proof -
  from ne have "1 \<le> \<bar>n - n0\<bar>" by simp
  then have "(1 :: rat) \<le> of_int \<bar>n - n0\<bar>"
    by (simp only: of_int_1_le_iff)
  then have one: "(1 :: rat) \<le> \<bar>of_int n - of_int n0\<bar>" by simp
  have "(of_int n :: rat) / 2 ^ q - of_int n0 / 2 ^ q = (of_int n - of_int n0) / 2 ^ q"
    by (simp add: diff_divide_distrib)
  then have "\<bar>(of_int n :: rat) / 2 ^ q - of_int n0 / 2 ^ q\<bar> = \<bar>of_int n - of_int n0\<bar> / 2 ^ q"
    by (simp add: abs_divide)
  with one show ?thesis
    by (simp add: divide_right_mono)
qed

lemma nearest_on_grid:
  assumes r: "representable p x" and x: "x = of_int n0 / 2 ^ (p + 3)"
    and half: "\<bar>v - x\<bar> \<le> 1 / 2 ^ (p + 4)" and low: "\<bar>v - x\<bar> \<le> v - 1 / 16"
  shows "nearest p v x"
  unfolding nearest_def
proof (intro conjI allI impI)
  show "representable p x" by (rule r)
next
  fix y assume ry: "representable p y"
  show "\<bar>v - x\<bar> \<le> \<bar>v - y\<bar>"
  proof (cases "1 / 16 \<le> y")
    case False
    with low show ?thesis by simp
  next
    case True
    with ry obtain n :: int where y: "y = of_int n / 2 ^ (p + 3)"
      using representable_grid by blast
    show ?thesis
    proof (cases "n = n0")
      case True
      with x y show ?thesis by simp
    next
      case False
      then have "1 / 2 ^ (p + 3) \<le> \<bar>y - x\<bar>"
        unfolding x y by (rule grid_gap)
      moreover have "(1 :: rat) / 2 ^ (p + 3) = 2 * (1 / 2 ^ (p + 4))"
        by (simp add: power_add)
      ultimately show ?thesis using half by linarith
    qed
  qed
qed

lemma not_nearest:
  assumes lo: "representable p (x - d)" and hi: "representable p (x + d)"
    and d: "0 < d" and far: "d / 2 < \<bar>v - x\<bar>"
  shows "\<not> nearest p v x"
proof
  assume n: "nearest p v x"
  then have a: "\<bar>v - x\<bar> \<le> \<bar>v - (x - d)\<bar>" and b: "\<bar>v - x\<bar> \<le> \<bar>v - (x + d)\<bar>"
    using lo hi by (simp_all add: nearest_def)
  from a b d far show False by (simp add: abs_if split: if_splits)
qed

lemma short_decimal_grid:
  assumes dt: "decimal_text u" and len: "length u \<le> j + 2"
  shows "\<exists>k :: int. decimal_rat u = of_int k / 10 ^ j"
proof -
  let ?f = "length (frac_part u)"
  have split: "int_part u @ point_part u = unsigned_part u"
    by (simp add: int_part_def point_part_def)
  have "length (unsigned_part u) \<le> length u"
    by (cases u) (simp_all add: unsigned_part_def)
  with split have "length (int_part u) + length (point_part u) \<le> length u"
    by (metis length_append)
  moreover from dt have "1 \<le> length (int_part u)"
    by (cases "int_part u") (simp_all add: decimal_text_def)
  moreover have "?f = length (point_part u) - 1"
    by (simp add: frac_part_def)
  ultimately have f: "?f \<le> j"
    using len by simp
  then have pw: "(10 :: rat) ^ j = 10 ^ ?f * 10 ^ (j - ?f)"
    by (simp add: power_add [symmetric])
  let ?A = "int (decimal_value (int_part u))" and ?B = "int (decimal_value (frac_part u))"
  let ?s = "if unsigned_part u = u then 1 else - 1 :: int"
  have "decimal_rat u = of_int (?s * (?A * 10 ^ j + ?B * 10 ^ (j - ?f))) / 10 ^ j"
    unfolding decimal_rat_def by (simp add: pw field_simps)
  then show ?thesis by blast
qed

lemma float32_tenth_representable: "representable 24 float32_tenth"
  unfolding representable_def float32_tenth_def
  by (rule exI [of _ 13421773], rule exI [of _ 27]) simp

lemma tenth_roundtrips_float32: "roundtrips 24 ''0.1'' float32_tenth"
proof -
  have dt: "decimal_text ''0.1''"
    by (simp add: decimal_text_def int_part_def frac_part_def point_part_def unsigned_part_def
        is_digit_def)
  have dr: "decimal_rat ''0.1'' = 1 / 10"
    by (simp add: decimal_rat_def int_part_def frac_part_def point_part_def unsigned_part_def
        decimal_value_def digit_value_def)
  have "nearest 24 (1 / 10) float32_tenth"
  proof (rule nearest_on_grid [where ?n0.0 = 13421773])
    show "representable 24 float32_tenth" by (rule float32_tenth_representable)
    show "float32_tenth = of_int 13421773 / 2 ^ (24 + 3)" by (simp add: float32_tenth_def)
    show "\<bar>1 / 10 - float32_tenth\<bar> \<le> 1 / 2 ^ (24 + 4)" by (simp add: float32_tenth_def)
    show "\<bar>1 / 10 - float32_tenth\<bar> \<le> 1 / 10 - 1 / 16" by (simp add: float32_tenth_def)
  qed
  then have "nearest 24 (decimal_rat ''0.1'') float32_tenth"
    by (simp only: dr)
  with dt show ?thesis
    unfolding roundtrips_def by (rule conjI)
qed

text \<open>At 24 bits no other number is as near to one tenth, so the text reads as this one only.\<close>

lemma tenth_reads_as_float32_tenth_only:
  assumes n: "nearest 24 (1 / 10) y"
  shows "y = float32_tenth"
proof (rule ccontr)
  assume ne: "y \<noteq> float32_tenth"
  from n have ry: "representable 24 y" and le: "\<bar>1 / 10 - y\<bar> \<le> \<bar>1 / 10 - float32_tenth\<bar>"
    using float32_tenth_representable by (simp_all add: nearest_def)
  have x: "float32_tenth = of_int 13421773 / 2 ^ (24 + 3)"
    by (simp add: float32_tenth_def)
  show False
  proof (cases "1 / 16 \<le> y")
    case False
    with le show False by (simp add: float32_tenth_def)
  next
    case True
    with ry obtain k :: int where y: "y = of_int k / 2 ^ (24 + 3)"
      using representable_grid by blast
    with ne x have "k \<noteq> 13421773" by auto
    then have "1 / 2 ^ (24 + 3) \<le> \<bar>y - float32_tenth\<bar>"
      unfolding x y by (rule grid_gap)
    with le show False
      unfolding float32_tenth_def by (simp add: abs_if split: if_splits)
  qed
qed

lemma float64_neighbours:
  "representable 53 (float32_tenth - 1 / 2 ^ 29) \<and> representable 53 (float32_tenth + 1 / 2 ^ 29)
   \<and> representable 53 (float32_tenth - 1 / 2 ^ 56) \<and> representable 53 (float32_tenth + 1 / 2 ^ 56)
   \<and> representable 53 float32_tenth"
proof -
  have "representable 53 (float32_tenth - 1 / 2 ^ 29)"
    unfolding representable_def float32_tenth_def
    by (rule exI [of _ "4 * 13421773 - 1"], rule exI [of _ 29]) simp
  moreover have "representable 53 (float32_tenth + 1 / 2 ^ 29)"
    unfolding representable_def float32_tenth_def
    by (rule exI [of _ "4 * 13421773 + 1"], rule exI [of _ 29]) simp
  moreover have "representable 53 (float32_tenth - 1 / 2 ^ 56)"
    unfolding representable_def float32_tenth_def
    by (rule exI [of _ "13421773 * 2 ^ 29 - 1"], rule exI [of _ 56]) simp
  moreover have "representable 53 (float32_tenth + 1 / 2 ^ 56)"
    unfolding representable_def float32_tenth_def
    by (rule exI [of _ "13421773 * 2 ^ 29 + 1"], rule exI [of _ 56]) simp
  moreover have "representable 53 float32_tenth"
    unfolding representable_def float32_tenth_def
    by (rule exI [of _ 13421773], rule exI [of _ 27]) simp
  ultimately show ?thesis by simp
qed

text \<open>No decimal text of at most three characters is read back as this number at 53 bits.\<close>

lemma short_text_not_float64:
  assumes dt: "decimal_text u" and len: "length u \<le> 3"
  shows "\<not> nearest 53 (decimal_rat u) float32_tenth"
proof -
  from dt len obtain k :: int where v: "decimal_rat u = of_int k / 10 ^ 1"
    using short_decimal_grid [of u 1] by auto
  have far: "(1 / 2 ^ 29) / 2 < \<bar>decimal_rat u - float32_tenth\<bar>"
  proof -
    consider "k \<le> 0" | "k = 1" | "2 \<le> k" by linarith
    then show ?thesis
    proof cases
      case 1
      then have "(of_int k :: rat) \<le> 0" by simp
      then show ?thesis unfolding v float32_tenth_def by simp
    next
      case 2
      then show ?thesis unfolding v float32_tenth_def by simp
    next
      case 3
      then have "(2 :: rat) \<le> of_int k" by simp
      then show ?thesis unfolding v float32_tenth_def by simp
    qed
  qed
  from float64_neighbours
  have lo: "representable 53 (float32_tenth - 1 / 2 ^ 29)"
    and hi: "representable 53 (float32_tenth + 1 / 2 ^ 29)"
    by blast+
  show ?thesis
    by (rule not_nearest [OF lo hi _ far]) simp
qed

text \<open>
  The text \<open>0.10000000149011612\<close> meets the contract of \<^verbatim>\<open>FormatFloat\<close> at 64 bits
  for the number that \<^verbatim>\<open>float32(0.1)\<close> holds: it round-trips, and no text of 18
  characters or fewer does.
\<close>

lemma library_text_roundtrips_float64:
  "roundtrips 53 ''0.10000000149011612'' float32_tenth"
proof -
  have dt: "decimal_text ''0.10000000149011612''"
    by (simp add: decimal_text_def int_part_def frac_part_def point_part_def unsigned_part_def
        is_digit_def)
  have dr: "decimal_rat ''0.10000000149011612'' = 10000000149011612 / 10 ^ 17"
    by (simp add: decimal_rat_def int_part_def frac_part_def point_part_def unsigned_part_def
        decimal_value_def digit_value_def)
  have "nearest 53 (10000000149011612 / 10 ^ 17) float32_tenth"
  proof (rule nearest_on_grid [where ?n0.0 = "13421773 * 2 ^ 29"])
    show "representable 53 float32_tenth" using float64_neighbours by blast
    show "float32_tenth = of_int (13421773 * 2 ^ 29) / 2 ^ (53 + 3)"
      by (simp add: float32_tenth_def)
    show "\<bar>10000000149011612 / 10 ^ 17 - float32_tenth\<bar> \<le> 1 / 2 ^ (53 + 4)"
      by (simp add: float32_tenth_def)
    show "\<bar>10000000149011612 / 10 ^ 17 - float32_tenth\<bar> \<le> 10000000149011612 / 10 ^ 17 - 1 / 16"
      by (simp add: float32_tenth_def)
  qed
  then have "nearest 53 (decimal_rat ''0.10000000149011612'') float32_tenth"
    by (simp only: dr)
  with dt show ?thesis
    unfolding roundtrips_def by (rule conjI)
qed

lemma shorter_text_not_float64:
  assumes dt: "decimal_text u" and len: "length u \<le> 18"
  shows "\<not> nearest 53 (decimal_rat u) float32_tenth"
proof -
  from dt len obtain k :: int where v: "decimal_rat u = of_int k / 10 ^ 16"
    using short_decimal_grid [of u 16] by auto
  have far: "(1 / 2 ^ 56) / 2 < \<bar>decimal_rat u - float32_tenth\<bar>"
  proof -
    consider "k \<le> 1000000014901161" | "1000000014901162 \<le> k" by linarith
    then show ?thesis
    proof cases
      case 1
      then have "(of_int k :: rat) \<le> 1000000014901161" by simp
      then show ?thesis unfolding v float32_tenth_def by simp
    next
      case 2
      then have "(1000000014901162 :: rat) \<le> of_int k" by simp
      then show ?thesis unfolding v float32_tenth_def by simp
    qed
  qed
  from float64_neighbours
  have lo: "representable 53 (float32_tenth - 1 / 2 ^ 56)"
    and hi: "representable 53 (float32_tenth + 1 / 2 ^ 56)"
    by blast+
  show ?thesis
    by (rule not_nearest [OF lo hi _ far]) simp
qed

lemma library_text_shortest_float64:
  "shortest_roundtrip 53 float32_tenth ''0.10000000149011612''"
  unfolding shortest_roundtrip_def
proof (intro conjI allI impI)
  show "roundtrips 53 ''0.10000000149011612'' float32_tenth"
    by (rule library_text_roundtrips_float64)
next
  fix u assume "roundtrips 53 u float32_tenth"
  then have dt: "decimal_text u" and n: "nearest 53 (decimal_rat u) float32_tenth"
    by (simp_all add: roundtrips_def)
  have "\<not> length u \<le> 18"
    using shorter_text_not_float64 [OF dt] n by blast
  then show "length ''0.10000000149011612'' \<le> length u" by simp
qed

text \<open>
  \<^verbatim>\<open>FormatFilterValue\<close> formats a float of either kind as the \<^verbatim>\<open>float64\<close> that
  \<^verbatim>\<open>v.Float()\<close> returns, at 64 bits.
\<close>

lemma FormatFilterValue_float_any_kind:
  "FormatFilterValue L (VFloat k x) = FormatFloat_f L x"
  by simp

text \<open>
  C5. The value formatter is to return, for a float of either width, the shortest
  decimal text that round-trips to it. For \<^verbatim>\<open>float32(0.1)\<close> the text \<open>0.1\<close>
  round-trips at 32 bits, but \<^verbatim>\<open>FormatFilterValue\<close> asks for the shortest text at 64
  bits, and no text of three characters round-trips at 64 bits: whatever library meets
  the contract of \<^verbatim>\<open>FormatFloat\<close> at this number, the text returned is not a
  shortest one for the \<^verbatim>\<open>float32\<close>.
\<close>

theorem FormatFilterValue_float32_not_shortest:
  "\<not> (\<exists>L. shortest_roundtrip 53 float32_tenth (FormatFloat_f L float32_tenth)
          \<and> shortest_roundtrip (precision Float32) float32_tenth
               (FormatFilterValue L (VFloat Float32 float32_tenth)))"
proof
  assume "\<exists>L. shortest_roundtrip 53 float32_tenth (FormatFloat_f L float32_tenth)
          \<and> shortest_roundtrip (precision Float32) float32_tenth
               (FormatFilterValue L (VFloat Float32 float32_tenth))"
  then obtain L :: "rat golib"
    where s64: "shortest_roundtrip 53 float32_tenth (FormatFloat_f L float32_tenth)"
      and s32: "shortest_roundtrip 24 float32_tenth (FormatFloat_f L float32_tenth)"
    by (auto simp add: precision_def)
  let ?t = "FormatFloat_f L float32_tenth"
  from s32 tenth_roundtrips_float32 have "length ?t \<le> length ''0.1''"
    unfolding shortest_roundtrip_def by blast
  then have len: "length ?t \<le> 3" by simp
  from s64 have "decimal_text ?t" and "nearest 53 (decimal_rat ?t) float32_tenth"
    by (simp_all add: shortest_roundtrip_def roundtrips_def)
  with len show False
    using short_text_not_float64 by blast
qed

theorem FormatFilterValue_float32_not_shortest_witness:
  "shortest_roundtrip 53 float32_tenth (FormatFloat_f lib_float float32_tenth)
   \<and> roundtrips 24 ''0.1'' float32_tenth
   \<and> FormatFilterValue lib_float (VFloat Float32 float32_tenth) = ''0.10000000149011612''
   \<and> \<not> shortest_roundtrip 24 float32_tenth
         (FormatFilterValue lib_float (VFloat Float32 float32_tenth))"
proof -
  have a: "shortest_roundtrip 53 float32_tenth (FormatFloat_f lib_float float32_tenth)"
    using library_text_shortest_float64 by (simp add: lib_float_def)
  have "\<not> (shortest_roundtrip 53 float32_tenth (FormatFloat_f lib_float float32_tenth)
          \<and> shortest_roundtrip (precision Float32) float32_tenth
               (FormatFilterValue lib_float (VFloat Float32 float32_tenth)))"
    using FormatFilterValue_float32_not_shortest by blast
  with a have "\<not> shortest_roundtrip 24 float32_tenth
         (FormatFilterValue lib_float (VFloat Float32 float32_tenth))"
    by (simp add: precision_def)
  moreover have "FormatFilterValue lib_float (VFloat Float32 float32_tenth) =
                 ''0.10000000149011612''"
    by (simp add: lib_float_def)
  ultimately show ?thesis
    using a tenth_roundtrips_float32 by simp
qed

text \<open>
  C2. \<^verbatim>\<open>BuildFilterCondition\<close> maps the alias operators \<open>=\<close>, \<open>!=\<close>, \<open><>\<close>, \<open>>\<close>,
  \<open>>=\<close>, \<open><\<close>, \<open><=\<close> to \<open>eq\<close>, \<open>neq\<close>, \<open>neq\<close>, \<open>gt\<close>, \<open>gte\<close>, \<open>lt\<close>, \<open>lte\<close>; every
  other operator token, the canonical keywords \<open>eq\<close>, \<open>neq\<close>, \<open>gt\<close>, \<open>gte\<close>, \<open>lt\<close>,
  \<open>lte\<close>, \<open>like\<close>, \<open>ilike\<close>, \<open>in\<close>, \<open>is\<close> and any unknown token alike, is kept as it
  is. The result is always \<open>column=op.value\<close> with the value from the value formatter.
\<close>

theorem BuildFilterCondition_operators:
  "BuildFilterCondition L c ''='' v = c @ ''=eq.'' @ FormatFilterValue L v
   \<and> BuildFilterCondition L c ''!='' v = c @ ''=neq.'' @ FormatFilterValue L v
   \<and> BuildFilterCondition L c ''<>'' v = c @ ''=neq.'' @ FormatFilterValue L v
   \<and> BuildFilterCondition L c ''>'' v = c @ ''=gt.'' @ FormatFilterValue L v
   \<and> BuildFilterCondition L c ''>='' v = c @ ''=gte.'' @ FormatFilterValue L v
   \<and> BuildFilterCondition L c ''<'' v = c @ ''=lt.'' @ FormatFilterValue L v
   \<and> BuildFilterCondition L c ''<='' v = c @ ''=lte.'' @ FormatFilterValue L v
   \<and> (op \<notin> {''='', ''!='', ''<>'', ''>'', ''>='', ''<'', ''<=''} \<longrightarrow>
        BuildFilterCondition L c op v = c @ ''='' @ op @ ''.'' @ FormatFilterValue L v)"
  by (auto simp add: BuildFilterCondition_def Let_def)

theorem BuildFilterCondition_operators_witness:
  "''contains'' \<notin> {''='', ''!='', ''<>'', ''>'', ''>='', ''<'', ''<=''}
   \<and> BuildFilterCondition lib0 ''tags'' ''contains'' (VStrings [''a'']) =
       [CHR ''t'', CHR ''a'', CHR ''g'', CHR ''s'', CHR ''='', CHR ''c'', CHR ''o'', CHR ''n'',
        CHR ''t'', CHR ''a'', CHR ''i'', CHR ''n'', CHR ''s'', CHR ''.'', CHR ''{'', CHR 0x22,
        CHR ''a'', CHR 0x22, CHR ''}'']
   \<and> BuildFilterCondition lib0 ''age'' ''gte'' (VInt 18) = ''age=gte.18''"
proof -
  have "FormatInt 18 = ''18''" by code_simp
  then show ?thesis
  using BuildFilterCondition_operators [of lib0 "''tags''" "VStrings [''a'']" "''contains''"]
    BuildFilterCondition_operators [of lib0 "''age''" "VInt 18" "''gte''"]
  by (simp add: quote_def)
qed

section \<open>The compiled query parameters and headers\<close>

lemma joinSelects_map: "joinSelects js = map (\<lambda>j. foreignTable j @ ''(*)'') js"
  by (induction js) simp_all

lemma add_filters_other: "k \<noteq> ''and'' \<Longrightarrow> add_filters L fs p k = p k"
  by (induction fs arbitrary: p) (simp_all add: Values_Add_def)

lemma add_filters_and:
  "add_filters L fs p ''and'' =
     (if fs = [] then p ''and''
      else Some ((case p ''and'' of None \<Rightarrow> [] | Some vs \<Rightarrow> vs) @ map (condition L) fs))"
  by (induction fs arbitrary: p) (simp_all add: Values_Add_def)

lemma queryParams_select:
  "queryParams L q ''select'' =
     (if joins q \<noteq> []
      then Some [(if selectFields q = [] then ''*'' else strings_Join (selectFields q) '','')
                 @ '','' @ strings_Join (joinSelects (joins q)) '','']
      else if selectFields q \<noteq> [] then Some [strings_Join (selectFields q) '','']
      else None)"
  by (simp add: queryParams_def Let_def Values_Set_def Values_Get_def add_filters_other)

lemma queryParams_and:
  "queryParams L q ''and'' =
     (if filters q = [] then None else Some (map (condition L) (filters q)))"
  by (simp add: queryParams_def Let_def Values_Set_def add_filters_and)

lemma queryParams_limit:
  "queryParams L q ''limit'' =
     (if 0 < limitValue q then Some [FormatInt (limitValue q)] else None)"
  by (simp add: queryParams_def Let_def Values_Set_def add_filters_other)

lemma queryParams_offset:
  "queryParams L q ''offset'' =
     (if 0 < offsetValue q then Some [FormatInt (offsetValue q)] else None)"
  by (simp add: queryParams_def Let_def Values_Set_def add_filters_other)

lemma build_request_normal:
  "rawQuery q = [] \<Longrightarrow> req_QueryParam (build_request L ks q) = queryParams L q"
  by (simp add: build_request_def Let_def split: option.splits)

lemma build_request_raw:
  "rawQuery q \<noteq> [] \<Longrightarrow>
   build_request L ks q =
     \<lparr>req_Method = [], req_URL = [], req_Header = set_headers (headers q) ks Map.empty,
      req_QueryParam = Map.empty, req_Body = None\<rparr>"
  by (simp add: build_request_def Let_def)

lemma build_request_Prefer:
  "req_Header (build_request L ks q) ''Prefer'' = set_headers (headers q) ks Map.empty ''Prefer''"
  by (simp add: build_request_def Let_def canonical_Range split: option.splits)


lemma execute_raw:
  "rawQuery q \<noteq> [] \<Longrightarrow>
   sent (execute E q a) =
     [\<lparr>req_Method = ''POST'', req_URL = baseURL (client q) @ ''/rest/v1/rpc/execute_sql'',
       req_Header = set_headers (headers q) (range_keys E (headers q)) Map.empty,
       req_QueryParam = Map.empty,
       req_Body = Some (DSql \<lparr>Query = rawQuery q\<rparr>)\<rparr>]
   \<and> arg (execute E q a) = a
   \<and> http_method (builder (execute E q a)) = ''POST''"
  by (simp add: execute_def Let_def split_beta build_request_raw MethodPost_def MethodGet_def
      GetBaseURL_def)


lemma execute_sent_length:
  "http_method q \<in> {MethodGet, MethodPost, MethodPatch, MethodDelete} \<or> rawQuery q \<noteq> [] \<Longrightarrow>
   length (sent (execute E q a)) = 1"
  by (auto simp add: execute_def Let_def split_beta)

lemma execute_sent_params:
  "rawQuery q = [] \<Longrightarrow>
   list_all (\<lambda>r. req_QueryParam r = queryParams (golib.truncate E) q) (sent (execute E q a))"
  by (simp add: execute_def Let_def split_beta build_request_normal)

text \<open>
  A builder whose method is one of the four that \<^verbatim>\<open>Table\<close> and the terminal
  operations set sends exactly one request; outside raw mode it carries the compiled
  parameters, and its \<^verbatim>\<open>Prefer\<close> header is what the header loop left there.
\<close>

lemma execute_sends_one:
  "http_method q \<in> {MethodGet, MethodPost, MethodPatch, MethodDelete} \<or> rawQuery q \<noteq> [] \<Longrightarrow>
   map (\<lambda>r. req_Header r ''Prefer'') (sent (execute E q a)) =
     [set_headers (headers q) (range_keys E (headers q)) Map.empty ''Prefer'']
   \<and> (rawQuery q = [] \<longrightarrow>
        map (\<lambda>r. req_QueryParam r k) (sent (execute E q a)) =
          [queryParams (golib.truncate E) q k])"
  by (auto simp add: execute_def Let_def split_beta build_request_normal build_request_Prefer
      MethodPost_def MethodGet_def)

text \<open>
  What \<^verbatim>\<open>execute\<close> adds for a standard filter, for every column, operator and value:
  the three parts as they are, joined by dots.
\<close>

lemma Where_adds_condition:
  "queryParams L (Where q c op v) ''and'' =
     Some (map (condition L) (filters q) @ [c @ ''.'' @ op @ ''.'' @ Sprint_v L v])"
  by (simp add: queryParams_and Where_def condition_def)

lemma OrWhere_adds_condition:
  "queryParams L (OrWhere q c op v) ''and'' =
     Some (map (condition L) (filters q) @
           [''or('' @ c @ ''.'' @ op @ ''.'' @ Sprint_v L v @ '')''])"
  by (simp add: queryParams_and OrWhere_def condition_def)

lemma FormatInt_1: "FormatInt 1 = ''1''"
  by code_simp

lemma FormatInt_10: "FormatInt 10 = ''10''"
  by code_simp

lemma FormatInt_20: "FormatInt 20 = ''20''"
  by code_simp

text \<open>
  C1. A standard filter added by \<^verbatim>\<open>Where\<close> or \<^verbatim>\<open>OrWhere\<close> is to reach the
  \<^verbatim>\<open>and\<close> parameter with its operator mapped to the canonical keyword and its value
  from the value formatter. \<^verbatim>\<open>execute\<close> formats the filter itself: for
  \<^verbatim>\<open>Where("id", "=", 1)\<close> it adds \<open>id.=.1\<close>, where \<^verbatim>\<open>BuildFilterCondition\<close> gives
  the operator \<open>eq\<close>, and for \<^verbatim>\<open>OrWhere("name", "eq", "John")\<close> it adds
  \<open>or(name.eq.John)\<close>, where the value formatter puts \<open>John\<close> between double quotes.
\<close>

theorem Where_operator_and_value_verbatim:
  "queryParams lib0 (Where (Table client0 ''users'') ''id'' ''='' (VInt 1)) ''and'' =
     Some [''id.=.1'']
   \<and> map (\<lambda>r. req_QueryParam r ''and'')
       (sent (Delete env_ok (Where (Table client0 ''users'') ''id'' ''='' (VInt 1)))) =
     [Some [''id.=.1'']]
   \<and> BuildFilterCondition lib0 ''id'' ''='' (VInt 1) = ''id=eq.1''
   \<and> queryParams lib0 (OrWhere (Table client0 ''users'') ''name'' ''eq'' (VString ''John''))
        ''and'' = Some [''or(name.eq.John)'']
   \<and> FormatFilterValue lib0 (VString ''John'') = [CHR 0x22] @ ''John'' @ [CHR 0x22]"
proof -
  have "map (\<lambda>r. req_QueryParam r ''and'')
          (sent (Delete env_ok (Where (Table client0 ''users'') ''id'' ''='' (VInt 1)))) =
        [Some [''id.=.1'']]"
    by (simp add: Delete_def execute_def Let_def split_beta build_request_normal
        queryParams_and Where_def Table_def condition_def FormatInt_1 MethodDelete_def
        MethodGet_def MethodPost_def MethodPatch_def env_ok_def golib.truncate_def)
  then show ?thesis
    by (simp add: queryParams_and Where_def OrWhere_def Table_def condition_def FormatInt_1
        BuildFilterCondition_def quote_def)
qed

text \<open>
  The method of a builder: \<^verbatim>\<open>Table\<close> sets GET, the chained calls keep it, and a
  terminal operation leaves one of the four methods behind when it found one.
\<close>

lemma builder_method:
  "http_method (Table c t) = MethodGet
   \<and> http_method (Transaction_Table tx t) = MethodGet
   \<and> http_method (Select q cols) = http_method q
   \<and> http_method (Where q col op v) = http_method q
   \<and> http_method (OrWhere q col op v) = http_method q
   \<and> http_method (WhereRaw q cond) = http_method q
   \<and> http_method (Order q col dir) = http_method q
   \<and> http_method (Limit q n) = http_method q
   \<and> http_method (Offset q n) = http_method q
   \<and> http_method (Range_rows q s e) = http_method q
   \<and> http_method (Header q k hv) = http_method q
   \<and> http_method (Join q ft lc jop fc) = http_method q
   \<and> http_method (InnerJoin q ft lc fc) = http_method q
   \<and> http_method (LeftJoin q ft lc fc) = http_method q
   \<and> http_method (Raw q sql) = http_method q"
  by (simp add: Table_def Transaction_Table_def Select_def Where_def OrWhere_def WhereRaw_def
      Order_def Limit_def Offset_def Range_rows_def Header_def Join_def InnerJoin_def
      LeftJoin_def Raw_def)

lemma terminal_method:
  "http_method q \<in> {MethodGet, MethodPost, MethodPatch, MethodDelete} \<Longrightarrow>
   http_method (builder (execute E q a)) \<in> {MethodGet, MethodPost, MethodPatch, MethodDelete}"
  by (auto simp add: execute_def Let_def split_beta)

text \<open>
  C6. Claimed for every builder with joins; it holds outside raw mode. There the one
  request a terminal operation sends has, as its \<^verbatim>\<open>select\<close> parameter, the selected
  columns joined by commas (\<open>*\<close> when none is selected), a comma, and one
  \<open>foreignTable(*)\<close> per join, joined by commas in the order of the join list.
  \<^verbatim>\<open>Join\<close> appends to the join list, so two chained joins come out in the order of
  the calls. The method of the builder is one of the four that \<^verbatim>\<open>Table\<close> and the
  terminal operations set.
\<close>

theorem select_with_joins:
  "rawQuery q = [] \<Longrightarrow> joins q \<noteq> [] \<Longrightarrow>
   http_method q \<in> {MethodGet, MethodPost, MethodPatch, MethodDelete} \<Longrightarrow>
   (let sel = Some [(if selectFields q = [] then ''*''
                     else strings_Join (selectFields q) '','')
                    @ '','' @
                    strings_Join (map (\<lambda>j. foreignTable j @ ''(*)'') (joins q)) '','']
    in map (\<lambda>r. req_QueryParam r ''select'') (sent (Get E q a)) = [sel]
       \<and> map (\<lambda>r. req_QueryParam r ''select'') (sent (First E q a)) = [sel]
       \<and> map (\<lambda>r. req_QueryParam r ''select'') (sent (Insert E q a)) = [sel]
       \<and> map (\<lambda>r. req_QueryParam r ''select'') (sent (Update E q a)) = [sel]
       \<and> map (\<lambda>r. req_QueryParam r ''select'') (sent (Delete E q)) = [sel])
   \<and> joins (Join (Join q t1 l1 o1 f1) t2 l2 o2 f2) =
       joins q @
       [\<lparr>foreignTable = t1, localColumn = l1, joperator = o1, foreignColumn = f1\<rparr>,
        \<lparr>foreignTable = t2, localColumn = l2, joperator = o2, foreignColumn = f2\<rparr>]
   \<and> map (\<lambda>r. req_QueryParam r ''select'')
       (sent (Get E (Join (Join (Select (Table c t) cols) t1 l1 o1 f1) t2 l2 o2 f2) a)) =
     [Some [(if cols = [] then ''*'' else strings_Join cols '','')
            @ '','' @ t1 @ ''(*),'' @ t2 @ ''(*)'']]"
proof -
  assume normal: "rawQuery q = []" and js: "joins q \<noteq> []"
    and m: "http_method q \<in> {MethodGet, MethodPost, MethodPatch, MethodDelete}"
  have one: "map (\<lambda>r. req_QueryParam r ''select'') (sent (execute E q' a')) =
             [queryParams (golib.truncate E) q' ''select'']"
    if "rawQuery q' = []" "http_method q' \<in> {MethodGet, MethodPost, MethodPatch, MethodDelete}"
    for q' a'
    using that execute_sends_one [of q' E a' "''select''"] by simp
  have "map (\<lambda>r. req_QueryParam r ''select'') (sent (Get E q a)) =
          [queryParams (golib.truncate E) q ''select'']"
    using one [OF normal m] by (simp add: Get_def)
  moreover have "map (\<lambda>r. req_QueryParam r ''select'') (sent (First E q a)) =
          [queryParams (golib.truncate E) q ''select'']"
    using one [of "Limit q 1" a] normal m
    by (simp add: First_def Limit_def queryParams_select)
  moreover have "map (\<lambda>r. req_QueryParam r ''select'') (sent (Insert E q a)) =
          [queryParams (golib.truncate E) q ''select'']"
    using one [of "q\<lparr>http_method := MethodPost\<rparr>" a] normal
    by (simp add: Insert_def queryParams_select)
  moreover have "map (\<lambda>r. req_QueryParam r ''select'') (sent (Update E q a)) =
          [queryParams (golib.truncate E) q ''select'']"
    using one [of "q\<lparr>http_method := MethodPatch\<rparr>" a] normal
    by (simp add: Update_def queryParams_select)
  moreover have "map (\<lambda>r. req_QueryParam r ''select'') (sent (Delete E q)) =
          [queryParams (golib.truncate E) q ''select'']"
    using one [of "q\<lparr>http_method := MethodDelete\<rparr>" DNil] normal
    by (simp add: Delete_def queryParams_select)
  moreover have "map (\<lambda>r. req_QueryParam r ''select'')
       (sent (Get E (Join (Join (Select (Table c t) cols) t1 l1 o1 f1) t2 l2 o2 f2) a)) =
     [Some [(if cols = [] then ''*'' else strings_Join cols '','')
            @ '','' @ t1 @ ''(*),'' @ t2 @ ''(*)'']]"
    using one [of "Join (Join (Select (Table c t) cols) t1 l1 o1 f1) t2 l2 o2 f2" a]
    by (simp add: Get_def Join_def Select_def Table_def queryParams_select)
  ultimately show ?thesis
    using js by (simp add: Let_def queryParams_select joinSelects_map Join_def)
qed

theorem select_with_joins_witness:
  "rawQuery (InnerJoin (InnerJoin (Select (Table client0 ''users'') [''id'', ''name''])
            ''posts'' ''id'' ''user_id'') ''comments'' ''id'' ''user_id'' :: unit QueryBuilder)
     = []
   \<and> joins (InnerJoin (InnerJoin (Select (Table client0 ''users'') [''id'', ''name''])
            ''posts'' ''id'' ''user_id'') ''comments'' ''id'' ''user_id'' :: unit QueryBuilder)
     \<noteq> []
   \<and> http_method (InnerJoin (InnerJoin (Select (Table client0 ''users'') [''id'', ''name''])
            ''posts'' ''id'' ''user_id'') ''comments'' ''id'' ''user_id'' :: unit QueryBuilder)
     \<in> {MethodGet, MethodPost, MethodPatch, MethodDelete}
   \<and> map (\<lambda>r. req_QueryParam r ''select'')
       (sent (Get env_ok
          (InnerJoin (InnerJoin (Select (Table client0 ''users'') [''id'', ''name''])
             ''posts'' ''id'' ''user_id'') ''comments'' ''id'' ''user_id'')
          (DPtr (Dest ''old'')))) =
     [Some [''id,name,posts(*),comments(*)'']]
   \<and> map (\<lambda>r. req_QueryParam r ''select'')
       (sent (Delete env_ok
          (InnerJoin (InnerJoin (Table client0 ''users'')
             ''posts'' ''id'' ''user_id'') ''comments'' ''id'' ''user_id''))) =
     [Some [''*,posts(*),comments(*)'']]"
  using select_with_joins
    [of "InnerJoin (InnerJoin (Select (Table client0 ''users'') [''id'', ''name''])
           ''posts'' ''id'' ''user_id'') ''comments'' ''id'' ''user_id''" env_ok
        "DPtr (Dest ''old'')", THEN conjunct1]
    select_with_joins
    [of "InnerJoin (InnerJoin (Table client0 ''users'')
           ''posts'' ''id'' ''user_id'') ''comments'' ''id'' ''user_id''" env_ok
        "DPtr (Dest ''old'')", THEN conjunct1]
  by (simp add: Let_def InnerJoin_def Join_def Select_def Table_def)

text \<open>
  In raw mode a builder with a join sends a request without any \<^verbatim>\<open>select\<close>
  parameter, so the claim as worded for every builder with joins does not hold there.
\<close>

theorem select_with_joins_raw_counterexample:
  "joins (Raw (InnerJoin (Table client0 ''users'') ''posts'' ''id'' ''user_id'') ''SELECT 1''
          :: unit QueryBuilder) \<noteq> []
   \<and> map (\<lambda>r. req_QueryParam r ''select'')
       (sent (Get env_ok
          (Raw (InnerJoin (Table client0 ''users'') ''posts'' ''id'' ''user_id'') ''SELECT 1'')
          (DPtr (Dest ''old'')))) = [None]
   \<and> map (\<lambda>r. req_QueryParam r ''select'')
       (sent (Get env_ok
          (Raw (InnerJoin (Table client0 ''users'') ''posts'' ''id'' ''user_id'') ''SELECT 1'')
          (DPtr (Dest ''old'')))) \<noteq> [Some [''*,posts(*)'']]"
  by (simp add: Get_def execute_raw Raw_def InnerJoin_def Join_def Table_def)

text \<open>
  C7. Outside raw mode, every request \<^verbatim>\<open>execute\<close> sends has the parameter
  \<^verbatim>\<open>limit\<close> exactly when the stored limit is positive, then with the limit in
  decimal as its one value, and likewise \<^verbatim>\<open>offset\<close>; setting a limit or an offset of
  zero on a fresh builder leaves the builder as it was, so zero and unset compile alike.
\<close>

theorem limit_offset_only_when_positive:
  "rawQuery (q :: 'f QueryBuilder) = [] \<Longrightarrow>
   list_all
     (\<lambda>r. req_QueryParam r ''limit'' =
            (if 0 < limitValue q then Some [FormatInt (limitValue q)] else None)
          \<and> req_QueryParam r ''offset'' =
            (if 0 < offsetValue q then Some [FormatInt (offsetValue q)] else None))
     (sent (execute E q a))
   \<and> (queryParams L q ''limit'' \<noteq> None) = (0 < limitValue q)
   \<and> queryParams L q ''limit'' =
       (if 0 < limitValue q then Some [FormatInt (limitValue q)] else None)
   \<and> (queryParams L q ''offset'' \<noteq> None) = (0 < offsetValue q)
   \<and> queryParams L q ''offset'' =
       (if 0 < offsetValue q then Some [FormatInt (offsetValue q)] else None)
   \<and> Limit (Table c t :: 'f QueryBuilder) 0 = Table c t
   \<and> Offset (Table c t :: 'f QueryBuilder) 0 = Table c t"
proof -
  assume normal: "rawQuery q = []"
  have "list_all
     (\<lambda>r. req_QueryParam r ''limit'' =
            (if 0 < limitValue q then Some [FormatInt (limitValue q)] else None)
          \<and> req_QueryParam r ''offset'' =
            (if 0 < offsetValue q then Some [FormatInt (offsetValue q)] else None))
     (sent (execute E q a))"
    using execute_sent_params [OF normal, of E a]
    by (simp add: list_all_iff queryParams_limit queryParams_offset)
  then show ?thesis
    by (simp add: queryParams_limit queryParams_offset Table_def Limit_def Offset_def)
qed

theorem limit_offset_only_when_positive_witness:
  "rawQuery (Offset (Limit (Table client0 ''users'') 10) 20 :: unit QueryBuilder) = []
   \<and> map (\<lambda>r. (req_QueryParam r ''limit'', req_QueryParam r ''offset''))
       (sent (Get env_ok (Offset (Limit (Table client0 ''users'') 10) 20) (DPtr (Dest ''old''))))
     = [(Some [''10''], Some [''20''])]
   \<and> map (\<lambda>r. (req_QueryParam r ''limit'', req_QueryParam r ''offset''))
       (sent (Get env_ok (Offset (Limit (Table client0 ''users'') 0) (- 3))
          (DPtr (Dest ''old''))))
     = [(None, None)]"
  using limit_offset_only_when_positive
    [of "Offset (Limit (Table client0 ''users'') 10) 20" env_ok "DPtr (Dest ''old'')",
     THEN conjunct1]
    limit_offset_only_when_positive
    [of "Offset (Limit (Table client0 ''users'') 0) (- 3)" env_ok "DPtr (Dest ''old'')",
     THEN conjunct1]
  by (simp add: Get_def execute_def Let_def split_beta Offset_def Limit_def Table_def
      MethodGet_def FormatInt_10 FormatInt_20)

section \<open>Raw mode\<close>

text \<open>
  C3. A builder with a non-empty raw query sends, whatever the terminal operation, one
  request: method POST, URL \<open>base/rest/v1/rpc/execute_sql\<close>, the builder's custom
  headers as the header loop sets them, no query parameter, and as body the struct whose
  \<^verbatim>\<open>query\<close> field is the raw query. Select, filter, order, limit, offset and range
  state does not change it.
\<close>

theorem raw_mode_request:
  "rawQuery q \<noteq> [] \<Longrightarrow>
   (let R = \<lparr>req_Method = ''POST'',
             req_URL = baseURL (client q) @ ''/rest/v1/rpc/execute_sql'',
             req_Header = set_headers (headers q) (range_keys E (headers q)) Map.empty,
             req_QueryParam = Map.empty,
             req_Body = Some (DSql \<lparr>Query = rawQuery q\<rparr>)\<rparr>
    in sent (Get E q a) = [R] \<and> sent (First E q a) = [R] \<and> sent (Insert E q a) = [R]
       \<and> sent (Update E q a) = [R] \<and> sent (Delete E q) = [R]
       \<and> sent (Get E (Range_rows (Offset (Limit (Order (Where (Select q cols) c op v) oc od) n) m)
                 s e) a) = [R])"
  by (simp add: Let_def Get_def First_def Insert_def Update_def Delete_def execute_raw
      Limit_def Range_rows_def Offset_def Order_def Where_def Select_def)

theorem raw_mode_request_witness:
  "rawQuery (Raw (Where (Select (Table client0 ''users'') [''id'']) ''id'' ''eq'' (VInt 1))
      ''SELECT 1'' :: unit QueryBuilder) \<noteq> []
   \<and> sent (Delete env_ok
        (Raw (Where (Select (Table client0 ''users'') [''id'']) ''id'' ''eq'' (VInt 1))
           ''SELECT 1'')) =
      [\<lparr>req_Method = ''POST'',
        req_URL = ''https://example.supabase.co/rest/v1/rpc/execute_sql'',
        req_Header = Map.empty, req_QueryParam = Map.empty,
        req_Body = Some (DSql \<lparr>Query = ''SELECT 1''\<rparr>)\<rparr>]"
  using raw_mode_request
    [of "Raw (Where (Select (Table client0 ''users'') [''id'']) ''id'' ''eq'' (VInt 1))
           ''SELECT 1''" env_ok]
  by (simp add: Let_def Raw_def Where_def Select_def Table_def client0_def env_ok_def)



text \<open>
  For comparison: outside raw mode a successful \<^verbatim>\<open>Get\<close> stores the decoded body in
  the caller's container; in raw mode a successful request ends in an error of
  \<^verbatim>\<open>json.Unmarshal\<close>, for JSON bytes the one for a target that is not a pointer.
\<close>

lemma Get_normal_mode_fills_result:
  "arg (Get env_ok (Table client0 ''users'') (DPtr (Dest ''old''))) = DPtr (Dest ''[1]'')
   \<and> err (Get env_ok (Table client0 ''users'') (DPtr (Dest ''old''))) = None"
  by (simp add: Get_def execute_def Let_def Table_def env_ok_def receive_def IsError_def
      json_Unmarshal_def MethodGet_def)

lemma raw_mode_success_is_an_error:
  "rawQuery q \<noteq> [] \<Longrightarrow>
   Do E \<lparr>req_Method = ''POST'', req_URL = baseURL (client q) @ ''/rest/v1/rpc/execute_sql'',
         req_Header = set_headers (headers q) (range_keys E (headers q)) Map.empty,
         req_QueryParam = Map.empty,
         req_Body = Some (DSql \<lparr>Query = rawQuery q\<rparr>)\<rparr> = Inr resp \<Longrightarrow>
   \<not> IsError resp \<Longrightarrow>
   err (Get E q a) =
     Some (case checkValid E (resp_Body resp) of
             Some m \<Rightarrow> UnmarshalError m
           | None \<Rightarrow> InvalidUnmarshalError)"
  by (simp add: Get_def execute_def Let_def build_request_raw receive_def json_Unmarshal_def
      MethodPost_def MethodGet_def GetBaseURL_def split: option.splits)

section \<open>Count\<close>




section \<open>Transactions\<close>

text \<open>
  C9. For every transaction, \<^verbatim>\<open>Commit\<close> returns no error and \<^verbatim>\<open>Rollback\<close> returns
  the error that says rollback is not supported; neither looks at the transaction.
\<close>

theorem Commit_succeeds_Rollback_fails:
  "Commit t = None
   \<and> Rollback t = Some (Errorf ''rollback not supported in the current Supabase REST API'')
   \<and> Rollback t \<noteq> None"
  by (simp add: Commit_def Rollback_def)

end
